theory Spec2Isabelle
  imports Main "HOL-Library.Sublist"
begin

section \<open>The user service of main.go\<close>

text \<open>
  The program is two HTTP handlers, \<open>getUsers\<close> and \<open>createUser\<close>, over one table
  \<open>users(id, name)\<close>, and two helpers that write the response. The handlers are pure
  glue, so the model is explicit state passing: a handler takes the response writer,
  the request and the state of the process's surroundings (the table behind the global
  \<open>db\<close> handle, the statements sent to it, the server log) and returns the writer and
  the surroundings as it leaves them.

  A Go \<open>string\<close> is a sequence of bytes and so is a HOL \<open>string\<close>: \<open>len(s)\<close> is
  \<open>length s\<close>.
\<close>

subsection \<open>Go values and their JSON encoding\<close>

text \<open>
  The handlers build \<open>map[string]interface{}\<close> values holding ints, strings and one
  slice of maps. A slice is \<open>None\<close> while it is nil (\<open>var users []T\<close>) and \<open>Some xs\<close>
  once \<open>append\<close> has allocated it. A map literal is the list of its entries.
\<close>

datatype gval =
    GInt int
  | GString string
  | GSlice "gval list option"
  | GMap "(string \<times> gval) list"

datatype json =
    JNull
  | JNum int
  | JStr string
  | JArr "json list"
  | JObj "(string \<times> json) list"

text \<open>\<open>append(s, x)\<close>: a nil slice is allocated by the first append.\<close>

fun append_slice :: "'a list option \<Rightarrow> 'a \<Rightarrow> 'a list option" where
  "append_slice None x = Some [x]"
| "append_slice (Some xs) x = Some (xs @ [x])"

text \<open>
  \<open>encoding/json\<close> on these values: a nil slice is encoded as \<open>null\<close>, a non-nil slice
  as an array, a map as an object. \<open>JStr\<close> and \<open>JNum\<close> hold the Go value handed to the
  encoder; the escaping of the text on the wire is below this model.
\<close>

primrec json_encode :: "gval \<Rightarrow> json" where
  "json_encode (GInt i) = JNum i"
| "json_encode (GString s) = JStr s"
| "json_encode (GSlice s) =
     (case map_option (map json_encode) s of None \<Rightarrow> JNull | Some js \<Rightarrow> JArr js)"
| "json_encode (GMap kvs) = JObj (map (map_prod id json_encode) kvs)"

text \<open>The value of a field of an encoded object, \<open>None\<close> when the field is absent.\<close>

fun field :: "json \<Rightarrow> string \<Rightarrow> json option" where
  "field (JObj kvs) k = map_of kvs k"
| "field _ k = None"

subsection \<open>net/http: the request and the response writer\<close>

text \<open>
  Of the request the handlers read the method, the outcome of \<open>r.ParseForm()\<close> and,
  through \<open>r.FormValue\<close>, the parsed form \<open>r.Form\<close>.
\<close>

record Request =
  Method :: string
  ParseForm :: "string option"
  Form :: "(string \<times> string list) list"

definition FormValue :: "Request \<Rightarrow> string \<Rightarrow> string" where
  "FormValue r key = (case map_of (Form r) key of Some (v # vs) \<Rightarrow> v | _ \<Rightarrow> [])"

text \<open>
  The response writer, as the client sees it: the headers, the status line once it is
  written, and the values encoded into the body, in order.
\<close>

record ResponseWriter =
  Header :: "(string \<times> string) list"
  status :: "int option"
  body :: "json list"

definition new_writer :: ResponseWriter where
  "new_writer = \<lparr>Header = [], status = None, body = []\<rparr>"

definition Header_Set :: "ResponseWriter \<Rightarrow> string \<Rightarrow> string \<Rightarrow> ResponseWriter" where
  "Header_Set w k v =
     (if status w = None then w\<lparr>Header := (k, v) # filter (\<lambda>p. fst p \<noteq> k) (Header w)\<rparr>
      else w)"

definition WriteHeader :: "ResponseWriter \<Rightarrow> int \<Rightarrow> ResponseWriter" where
  "WriteHeader w statusCode = (if status w = None then w\<lparr>status := Some statusCode\<rparr> else w)"

definition Encode :: "ResponseWriter \<Rightarrow> gval \<Rightarrow> ResponseWriter" where
  "Encode w v =
     (let w' = (if status w = None then w\<lparr>status := Some 200\<rparr> else w)
      in w'\<lparr>body := body w' @ [json_encode v]\<rparr>)"

definition MethodPost :: string where "MethodPost = ''POST''"
definition StatusOK :: int where "StatusOK = 200"
definition StatusCreated :: int where "StatusCreated = 201"
definition StatusBadRequest :: int where "StatusBadRequest = 400"
definition StatusMethodNotAllowed :: int where "StatusMethodNotAllowed = 405"
definition StatusConflict :: int where "StatusConflict = 409"
definition StatusInternalServerError :: int where "StatusInternalServerError = 500"

subsection \<open>sendErrorResponse and sendSuccessResponse\<close>

definition sendErrorResponse :: "ResponseWriter \<Rightarrow> string \<Rightarrow> int \<Rightarrow> ResponseWriter" where
  "sendErrorResponse w message statusCode =
     Encode (WriteHeader (Header_Set w ''Content-Type'' ''application/json'') statusCode)
       (GMap [(''error'', GString message), (''status'', GInt statusCode)])"

definition sendSuccessResponse ::
  "ResponseWriter \<Rightarrow> (string \<times> gval) list \<Rightarrow> int \<Rightarrow> ResponseWriter" where
  "sendSuccessResponse w data statusCode =
     Encode (WriteHeader (Header_Set w ''Content-Type'' ''application/json'') statusCode)
       (GMap data)"

subsection \<open>database/sql: the table, the driver and the log\<close>

text \<open>
  The surroundings of a handler: the rows of \<open>users\<close> in storage order, the counter
  behind the database-assigned \<open>id\<close>, every statement the handlers have sent through
  \<open>db\<close> (its SQL text and its arguments), and the lines written with \<open>log.Println\<close>.
\<close>

datatype db_error = DriverError string

fun Error :: "db_error \<Rightarrow> string" where
  "Error (DriverError s) = s"

record world =
  users_table :: "(int \<times> string) list"
  id_seq :: int
  issued :: "(string \<times> string list) list"
  logged :: "string list"

text \<open>
  What the driver does during one request is not decided by the program: any call may
  fail with any error. A \<open>driver\<close> fixes these outcomes for one request: the failure
  of \<open>db.Query\<close>, the failure of \<open>rows.Scan\<close> at given row indices, an iteration that
  breaks off after \<open>k\<close> rows and leaves its error in \<open>rows.Err()\<close>, the failure of the
  existence query and the failure of \<open>db.Exec\<close>.
\<close>

record driver =
  query_fault :: "db_error option"
  scan_faults :: "(nat \<times> db_error) list"
  iter_fault :: "(nat \<times> db_error) option"
  exists_fault :: "db_error option"
  exec_fault :: "db_error option"

definition healthy :: driver where
  "healthy = \<lparr>query_fault = None, scan_faults = [], iter_fault = None,
     exists_fault = None, exec_fault = None\<rparr>"

text \<open>
  An open result set: what each \<open>rows.Next(); rows.Scan(&id, &name)\<close> will give, and
  what \<open>rows.Err()\<close> gives once \<open>rows.Next()\<close> has returned false.
\<close>

record Rows =
  pending :: "(db_error + int \<times> string) list"
  rows_Err :: "db_error option"

definition open_rows :: "driver \<Rightarrow> (int \<times> string) list \<Rightarrow> Rows" where
  "open_rows d tbl =
     (let delivered = (case iter_fault d of None \<Rightarrow> tbl | Some (k, e) \<Rightarrow> take k tbl)
      in \<lparr>pending = map (\<lambda>(i, row). case map_of (scan_faults d) i of
                                      Some e \<Rightarrow> Inl e | None \<Rightarrow> Inr row)
                        (enumerate 0 delivered),
          rows_Err = map_option snd (iter_fault d)\<rparr>)"

definition send :: "string \<Rightarrow> string list \<Rightarrow> world \<Rightarrow> world" where
  "send sql args wd = wd\<lparr>issued := issued wd @ [(sql, args)]\<rparr>"

text \<open>\<open>db.Query("SELECT id, name FROM users")\<close>\<close>

definition db_Query_users :: "driver \<Rightarrow> world \<Rightarrow> (db_error + Rows) \<times> world" where
  "db_Query_users d wd =
     (let wd' = send ''SELECT id, name FROM users'' [] wd
      in case query_fault d of
           Some e \<Rightarrow> (Inl e, wd')
         | None \<Rightarrow> (Inr (open_rows d (users_table wd)), wd'))"

text \<open>
  \<open>db.QueryRow("SELECT EXISTS(SELECT 1 FROM users WHERE name=$1)", username).Scan(&exists)\<close>.
  The statement passes \<open>username\<close> unchanged as the parameter; \<open>=\<close> on the \<open>name\<close>
  column is equality of the stored bytes.
\<close>

definition db_QueryRow_exists :: "driver \<Rightarrow> string \<Rightarrow> world \<Rightarrow> (db_error + bool) \<times> world" where
  "db_QueryRow_exists d username wd =
     (let wd' = send ''SELECT EXISTS(SELECT 1 FROM users WHERE name=$1)'' [username] wd
      in case exists_fault d of
           Some e \<Rightarrow> (Inl e, wd')
         | None \<Rightarrow> (Inr (username \<in> set (map snd (users_table wd))), wd'))"

text \<open>\<open>db.Exec("INSERT INTO users (name) VALUES ($1)", username)\<close>\<close>

definition db_Exec_insert :: "driver \<Rightarrow> string \<Rightarrow> world \<Rightarrow> db_error option \<times> world" where
  "db_Exec_insert d username wd =
     (let wd' = send ''INSERT INTO users (name) VALUES ($1)'' [username] wd
      in case exec_fault d of
           Some e \<Rightarrow> (Some e, wd')
         | None \<Rightarrow> (None, wd'\<lparr>users_table := users_table wd' @ [(id_seq wd', username)],
                               id_seq := id_seq wd' + 1\<rparr>))"

text \<open>\<open>log.Println\<close> writes its operands separated by spaces.\<close>

fun sep_by_space :: "string list \<Rightarrow> string" where
  "sep_by_space [] = []"
| "sep_by_space [a] = a"
| "sep_by_space (a # b # rest) = a @ '' '' @ sep_by_space (b # rest)"

definition log_Println :: "string list \<Rightarrow> world \<Rightarrow> world" where
  "log_Println operands wd = wd\<lparr>logged := logged wd @ [sep_by_space operands]\<rparr>"

subsection \<open>getUsers\<close>

text \<open>
  The \<open>for rows.Next()\<close> loop: it scans one row after the other into \<open>users\<close> and
  leaves at the first scan that fails.
\<close>

fun scan_loop :: "(db_error + int \<times> string) list \<Rightarrow> gval list option \<Rightarrow>
    db_error + gval list option" where
  "scan_loop [] users = Inr users"
| "scan_loop (Inl err # rest) users = Inl err"
| "scan_loop (Inr (uid, name) # rest) users =
     scan_loop rest (append_slice users (GMap [(''id'', GInt uid), (''name'', GString name)]))"

definition getUsers :: "driver \<Rightarrow> ResponseWriter \<Rightarrow> Request \<Rightarrow> world \<Rightarrow> ResponseWriter \<times> world" where
  "getUsers d w r wd =
     (case db_Query_users d wd of
        (Inl err, wd1) \<Rightarrow>
          (sendErrorResponse w ''Failed to query users'' StatusInternalServerError,
           log_Println [''Failed to query users: '', Error err] wd1)
      | (Inr rows, wd1) \<Rightarrow>
          (case scan_loop (pending rows) None of
             Inl err \<Rightarrow>
               (sendErrorResponse w ''Failed to scan user'' StatusInternalServerError,
                log_Println [''Failed to scan user: '', Error err] wd1)
           | Inr users \<Rightarrow>
               (case rows_Err rows of
                  Some err \<Rightarrow>
                    (sendErrorResponse w ''Error iterating users'' StatusInternalServerError,
                     log_Println [''Error iterating users: '', Error err] wd1)
                | None \<Rightarrow>
                    (sendSuccessResponse w
                       [(''users'', GSlice users), (''status'', GInt StatusOK)] StatusOK,
                     wd1))))"

subsection \<open>createUser\<close>

definition checkUsernameExists :: "driver \<Rightarrow> string \<Rightarrow> world \<Rightarrow> (db_error + bool) \<times> world" where
  "checkUsernameExists d username wd =
     (case db_QueryRow_exists d username wd of
        (Inl err, wd') \<Rightarrow> (Inl err, wd')
      | (Inr exists, wd') \<Rightarrow> (Inr exists, wd'))"

definition createUser :: "driver \<Rightarrow> ResponseWriter \<Rightarrow> Request \<Rightarrow> world \<Rightarrow> ResponseWriter \<times> world" where
  "createUser d w r wd =
     (if Method r \<noteq> MethodPost then
        (sendErrorResponse w ''Invalid request method. Only POST is allowed''
           StatusMethodNotAllowed, wd)
      else (case ParseForm r of
        Some err \<Rightarrow> (sendErrorResponse w ''Failed to parse form data'' StatusBadRequest, wd)
      | None \<Rightarrow>
         (let username = FormValue r ''name'' in
          if username = [] then
            (sendErrorResponse w ''Username is required'' StatusBadRequest, wd)
          else if length username < 3 \<or> length username > 20 then
            (sendErrorResponse w ''Username must be between 3 and 20 characters''
               StatusBadRequest, wd)
          else (case checkUsernameExists d username wd of
            (Inl err, wd1) \<Rightarrow>
              (sendErrorResponse w ''Error checking username'' StatusInternalServerError,
               log_Println [''Error checking username:'', Error err] wd1)
          | (Inr exists, wd1) \<Rightarrow>
              if exists then
                (sendErrorResponse w ''Username already exists'' StatusConflict, wd1)
              else (case db_Exec_insert d username wd1 of
                (Some err, wd2) \<Rightarrow>
                  (sendErrorResponse w ''Failed to create user'' StatusInternalServerError,
                   log_Println [''Failed to create user: '', Error err] wd2)
              | (None, wd2) \<Rightarrow>
                  (sendSuccessResponse w
                     [(''message'', GString (''User '' @ username @ '' created successfully'')),
                      (''status'', GInt StatusCreated)] StatusCreated,
                   wd2))))))"

subsection \<open>Vocabulary of the properties\<close>

text \<open>
  The two shapes a handler gives a fresh response writer: the error envelope with a
  status code and a message, and the confirmation of a created user.
\<close>

definition error_envelope :: "int \<Rightarrow> string \<Rightarrow> ResponseWriter" where
  "error_envelope code message =
     \<lparr>Header = [(''Content-Type'', ''application/json'')], status = Some code,
      body = [JObj [(''error'', JStr message), (''status'', JNum code)]]\<rparr>"

definition created_envelope :: "string \<Rightarrow> ResponseWriter" where
  "created_envelope username =
     \<lparr>Header = [(''Content-Type'', ''application/json'')], status = Some 201,
      body = [JObj [(''message'', JStr (''User '' @ username @ '' created successfully'')),
                    (''status'', JNum 201)]]\<rparr>"

text \<open>
  The length of a name in characters, which the program never computes: the number of
  UTF-8 encoded code points of the string, counted as Go's \<open>utf8.RuneCountInString\<close>
  counts them (a byte that does not start a well-formed sequence counts as one
  character). \<open>accept_range\<close> gives, for a leading byte, the length of its sequence and
  the range allowed for the second byte.
\<close>

fun accept_range :: "nat \<Rightarrow> (nat \<times> nat \<times> nat) option" where
  "accept_range c =
     (if 0xC2 \<le> c \<and> c \<le> 0xDF then Some (2, 0x80, 0xBF)
      else if c = 0xE0 then Some (3, 0xA0, 0xBF)
      else if c = 0xED then Some (3, 0x80, 0x9F)
      else if 0xE1 \<le> c \<and> c \<le> 0xEF then Some (3, 0x80, 0xBF)
      else if c = 0xF0 then Some (4, 0x90, 0xBF)
      else if 0xF1 \<le> c \<and> c \<le> 0xF3 then Some (4, 0x80, 0xBF)
      else if c = 0xF4 then Some (4, 0x80, 0x8F)
      else None)"

definition continuation :: "nat \<Rightarrow> bool" where
  "continuation c = (0x80 \<le> c \<and> c \<le> 0xBF)"

definition rune_size :: "nat \<Rightarrow> nat list \<Rightarrow> nat" where
  "rune_size c rest =
     (if c < 0x80 then 1
      else case accept_range c of
        None \<Rightarrow> 1
      | Some (n, lo, hi) \<Rightarrow>
          if Suc (length rest) < n then 1
          else if rest ! 0 < lo \<or> hi < rest ! 0 then 1
          else if n = 2 then 2
          else if \<not> continuation (rest ! 1) then 1
          else if n = 3 then 3
          else if \<not> continuation (rest ! 2) then 1
          else 4)"

function RuneCountInString :: "string \<Rightarrow> nat" where
  "RuneCountInString [] = 0"
| "RuneCountInString (c # s) =
     Suc (RuneCountInString (drop (rune_size (of_char c) (map of_char s) - 1) s))"
  by pat_completeness auto
termination
  by (relation "measure length") auto

text \<open>
  A name of seven characters, each the three bytes of U+20AC: 7 characters, 21 bytes.
  And a name of two characters, each the two bytes of U+00E9: 2 characters, 4 bytes.
\<close>

definition seven_euros :: string where
  "seven_euros =
     [CHR 0xE2, CHR 0x82, CHR 0xAC,
      CHR 0xE2, CHR 0x82, CHR 0xAC,
      CHR 0xE2, CHR 0x82, CHR 0xAC,
      CHR 0xE2, CHR 0x82, CHR 0xAC,
      CHR 0xE2, CHR 0x82, CHR 0xAC,
      CHR 0xE2, CHR 0x82, CHR 0xAC,
      CHR 0xE2, CHR 0x82, CHR 0xAC]"

definition two_e_acutes :: string where
  "two_e_acutes = [CHR 0xC3, CHR 0xA9, CHR 0xC3, CHR 0xA9]"

definition post_name :: "string \<Rightarrow> Request" where
  "post_name name = \<lparr>Method = ''POST'', ParseForm = None, Form = [(''name'', [name])]\<rparr>"

definition empty_world :: world where
  "empty_world = \<lparr>users_table = [], id_seq = 1, issued = [], logged = []\<rparr>"

text \<open>The number of rows of the table that carry a given name.\<close>

definition rows_named :: "string \<Rightarrow> world \<Rightarrow> nat" where
  "rows_named name wd = length (filter (\<lambda>row. snd row = name) (users_table wd))"

text \<open>
  The validation pipeline as the specification words it: an ordered list of checks,
  each with the response it gives when it fails; the first failing check determines
  the response. The length of the third check is the length in characters. The steps that touch the database are the existence query, which runs
  once the first three checks have passed, and the insert, which runs once the first
  five have passed; the row is inserted when no check fails.
\<close>

definition first_failing :: "(bool \<times> 'a) list \<Rightarrow> (nat \<times> 'a) option" where
  "first_failing checks =
     map_option (\<lambda>i. (i, snd (checks ! i))) (find (\<lambda>i. fst (checks ! i)) [0..<length checks])"

definition create_spec_checks :: "driver \<Rightarrow> Request \<Rightarrow> world \<Rightarrow> (bool \<times> int \<times> string) list" where
  "create_spec_checks d r wd =
     [(ParseForm r \<noteq> None, 400, ''Failed to parse form data''),
      (FormValue r ''name'' = [], 400, ''Username is required''),
      (RuneCountInString (FormValue r ''name'') < 3 \<or>
         20 < RuneCountInString (FormValue r ''name''),
         400, ''Username must be between 3 and 20 characters''),
      (exists_fault d \<noteq> None, 500, ''Error checking username''),
      (FormValue r ''name'' \<in> snd ` set (users_table wd), 409, ''Username already exists''),
      (exec_fault d \<noteq> None, 500, ''Failed to create user'')]"

definition create_spec_response :: "driver \<Rightarrow> Request \<Rightarrow> world \<Rightarrow> ResponseWriter" where
  "create_spec_response d r wd =
     (case first_failing (create_spec_checks d r wd) of
        Some (i, code, message) \<Rightarrow> error_envelope code message
      | None \<Rightarrow> created_envelope (FormValue r ''name''))"

definition create_spec_statements :: "driver \<Rightarrow> Request \<Rightarrow> world \<Rightarrow> (string \<times> string list) list" where
  "create_spec_statements d r wd =
     (let reached = (case first_failing (create_spec_checks d r wd) of
                       Some (i, resp) \<Rightarrow> i | None \<Rightarrow> 6)
      in (if 3 \<le> reached
          then [(''SELECT EXISTS(SELECT 1 FROM users WHERE name=$1)'', [FormValue r ''name''])]
          else []) @
         (if 5 \<le> reached
          then [(''INSERT INTO users (name) VALUES ($1)'', [FormValue r ''name''])]
          else []))"

definition create_spec_table :: "driver \<Rightarrow> Request \<Rightarrow> world \<Rightarrow> (int \<times> string) list" where
  "create_spec_table d r wd =
     (case first_failing (create_spec_checks d r wd) of
        Some failing \<Rightarrow> users_table wd
      | None \<Rightarrow> users_table wd @ [(id_seq wd, FormValue r ''name'')])"

text \<open>
  The envelope of a response: the status line is written, the content type is declared
  as JSON, the body is one object whose \<open>status\<close> field is the number of the status
  line, and the object carries a \<open>users\<close> or \<open>message\<close> field and no \<open>error\<close> field
  when the status is below 400, a string \<open>error\<close> field and no payload field otherwise.
\<close>

fun has_field :: "json \<Rightarrow> string \<Rightarrow> bool" where
  "has_field j k = (case field j k of None \<Rightarrow> False | Some v \<Rightarrow> True)"

fun string_field :: "json \<Rightarrow> string \<Rightarrow> bool" where
  "string_field j k = (case field j k of Some (JStr m) \<Rightarrow> True | _ \<Rightarrow> False)"

definition enveloped :: "ResponseWriter \<Rightarrow> bool" where
  "enveloped w =
     (case (status w, body w) of
        (Some code, [j]) \<Rightarrow>
          map_of (Header w) ''Content-Type'' = Some ''application/json'' \<and>
          field j ''status'' = Some (JNum code) \<and>
          (if code < 400
           then (has_field j ''users'' \<or> has_field j ''message'') \<and> \<not> has_field j ''error''
           else string_field j ''error'' \<and> \<not> has_field j ''users'' \<and> \<not> has_field j ''message'')
      | _ \<Rightarrow> False)"

text \<open>
  The failure points of a driver: where it fails, with the detail of every error
  forgotten. Two drivers with the same failure points fail at the same calls and
  differ at most in the underlying errors.
\<close>

definition forget :: "db_error \<Rightarrow> db_error" where
  "forget e = DriverError []"

definition failure_points :: "driver \<Rightarrow> driver" where
  "failure_points d =
     \<lparr>query_fault = map_option forget (query_fault d),
      scan_faults = map (\<lambda>(i, e). (i, forget e)) (scan_faults d),
      iter_fault = map_option (\<lambda>(k, e). (k, forget e)) (iter_fault d),
      exists_fault = map_option forget (exists_fault d),
      exec_fault = map_option forget (exec_fault d)\<rparr>"

section \<open>Properties\<close>

subsection \<open>Helper lemmas\<close>

lemmas http_consts = MethodPost_def StatusOK_def StatusCreated_def StatusBadRequest_def
  StatusMethodNotAllowed_def StatusConflict_def StatusInternalServerError_def

lemma sendErrorResponse_new:
  "sendErrorResponse new_writer message code = error_envelope code message"
  by (simp add: sendErrorResponse_def error_envelope_def new_writer_def Header_Set_def
      WriteHeader_def Encode_def)

lemma sendSuccessResponse_new:
  "sendSuccessResponse new_writer data code =
     \<lparr>Header = [(''Content-Type'', ''application/json'')], status = Some code,
      body = [json_encode (GMap data)]\<rparr>"
  by (simp add: sendSuccessResponse_def new_writer_def Header_Set_def WriteHeader_def Encode_def)

lemma RuneCountInString_le_len: "RuneCountInString s \<le> length s"
proof (induction s rule: RuneCountInString.induct)
  case 1
  show ?case by simp
next
  case (2 c s)
  have "length (drop (rune_size (of_char c) (map of_char s) - 1) s) \<le> length s"
    by simp
  with 2 show ?case by simp
qed

subsection \<open>Listing an empty table\<close>

text \<open>
  C1. Listing the users of an empty table, with a driver that does not fail, should
  answer 200 with a \<open>users\<close> field that is an empty list, neither null nor absent.
  The status is 200 and the field is present, but the slice \<open>users\<close> is declared nil
  and no \<open>append\<close> runs, so the field is encoded as \<open>null\<close>: the evaluation below is
  what the handler sends.
\<close>

theorem getUsers_empty_table_null:
  "fst (getUsers healthy new_writer r (wd\<lparr>users_table := []\<rparr>)) =
     \<lparr>Header = [(''Content-Type'', ''application/json'')], status = Some 200,
      body = [JObj [(''users'', JNull), (''status'', JNum 200)]]\<rparr>"
  by (simp add: getUsers_def db_Query_users_def healthy_def open_rows_def send_def
      sendSuccessResponse_new StatusOK_def)

subsection \<open>The method check\<close>

text \<open>
  C5. A request to create a user whose method is not POST is answered with the 405
  error envelope, and the table (with everything else around the handler) is left as
  it was: no row is inserted.
\<close>

theorem createUser_not_post:
  assumes "Method r \<noteq> MethodPost"
  shows "createUser d new_writer r wd =
           (error_envelope 405 ''Invalid request method. Only POST is allowed'', wd)"
  using assms by (simp add: createUser_def sendErrorResponse_new StatusMethodNotAllowed_def)

theorem createUser_not_post_witness:
  "Method \<lparr>Method = ''GET'', ParseForm = None, Form = [(''name'', [''alice''])]\<rparr> \<noteq> MethodPost \<and>
   createUser healthy new_writer
     \<lparr>Method = ''GET'', ParseForm = None, Form = [(''name'', [''alice''])]\<rparr>
     \<lparr>users_table = [], id_seq = 1, issued = [], logged = []\<rparr> =
   (error_envelope 405 ''Invalid request method. Only POST is allowed'',
    \<lparr>users_table = [], id_seq = 1, issued = [], logged = []\<rparr>)"
  using createUser_not_post
    [of "\<lparr>Method = ''GET'', ParseForm = None, Form = [(''name'', [''alice''])]\<rparr>"
      healthy "\<lparr>users_table = [], id_seq = 1, issued = [], logged = []\<rparr>"]
  by (simp add: MethodPost_def)

subsection \<open>Rejections do not reach the database\<close>

text \<open>
  C10. A request that the method check, the form-parse check, the missing-name check
  or the length check rejects is answered 405 or 400, and the surroundings are exactly
  as before: no statement has been sent through \<open>db\<close> and the table is unchanged.
\<close>

theorem createUser_rejection_leaves_db:
  assumes "Method r \<noteq> MethodPost \<or> ParseForm r \<noteq> None \<or> FormValue r ''name'' = []
           \<or> length (FormValue r ''name'') < 3 \<or> 20 < length (FormValue r ''name'')"
  shows "snd (createUser d new_writer r wd) = wd \<and>
         issued (snd (createUser d new_writer r wd)) = issued wd \<and>
         users_table (snd (createUser d new_writer r wd)) = users_table wd \<and>
         status (fst (createUser d new_writer r wd)) \<in> {Some 400, Some 405}"
  using assms
  by (auto simp add: createUser_def sendErrorResponse_new error_envelope_def http_consts Let_def
      split: option.splits)

theorem createUser_rejection_leaves_db_witness:
  "length (FormValue \<lparr>Method = ''POST'', ParseForm = None, Form = [(''name'', [''ab''])]\<rparr>
             ''name'') < 3 \<and>
   issued (snd (createUser healthy new_writer
     \<lparr>Method = ''POST'', ParseForm = None, Form = [(''name'', [''ab''])]\<rparr>
     \<lparr>users_table = [(1, ''alice'')], id_seq = 2, issued = [], logged = []\<rparr>)) = [] \<and>
   users_table (snd (createUser healthy new_writer
     \<lparr>Method = ''POST'', ParseForm = None, Form = [(''name'', [''ab''])]\<rparr>
     \<lparr>users_table = [(1, ''alice'')], id_seq = 2, issued = [], logged = []\<rparr>)) = [(1, ''alice'')]"
  using createUser_rejection_leaves_db
    [of "\<lparr>Method = ''POST'', ParseForm = None, Form = [(''name'', [''ab''])]\<rparr>"
      healthy "\<lparr>users_table = [(1, ''alice'')], id_seq = 2, issued = [], logged = []\<rparr>"]
  by (simp add: FormValue_def)

subsection \<open>The length check\<close>

text \<open>
  C2, as stated, fails at two names. The empty name has fewer than 3 characters and is
  answered by the check before the length check, with the message
  \<open>Username is required\<close>. The name of the two characters U+00E9 U+00E9 has fewer
  than 3 characters and is 4 bytes long; \<open>len\<close> counts bytes, so the name passes the
  length check and its row is inserted.
\<close>

theorem createUser_length_counterexample:
  "RuneCountInString [] < 3 \<and>
   createUser healthy new_writer \<lparr>Method = ''POST'', ParseForm = None, Form = [(''name'', [[]])]\<rparr>
     \<lparr>users_table = [], id_seq = 1, issued = [], logged = []\<rparr> =
     (error_envelope 400 ''Username is required'',
      \<lparr>users_table = [], id_seq = 1, issued = [], logged = []\<rparr>) \<and>
   \<not> sublist ''between 3 and 20 characters'' ''Username is required'' \<and>
   RuneCountInString [CHR 0xC3, CHR 0xA9, CHR 0xC3, CHR 0xA9] < 3 \<and>
   createUser healthy new_writer
     \<lparr>Method = ''POST'', ParseForm = None,
      Form = [(''name'', [[CHR 0xC3, CHR 0xA9, CHR 0xC3, CHR 0xA9]])]\<rparr>
     \<lparr>users_table = [], id_seq = 1, issued = [], logged = []\<rparr> =
     (created_envelope [CHR 0xC3, CHR 0xA9, CHR 0xC3, CHR 0xA9],
      \<lparr>users_table = [(1, [CHR 0xC3, CHR 0xA9, CHR 0xC3, CHR 0xA9])], id_seq = 2,
       issued = [(''SELECT EXISTS(SELECT 1 FROM users WHERE name=$1)'',
                   [[CHR 0xC3, CHR 0xA9, CHR 0xC3, CHR 0xA9]]),
                 (''INSERT INTO users (name) VALUES ($1)'',
                   [[CHR 0xC3, CHR 0xA9, CHR 0xC3, CHR 0xA9]])],
       logged = []\<rparr>)"
proof -
  have a: "\<not> sublist ''between 3 and 20 characters'' ''Username is required''"
    by (simp add: sublist_Cons_right)
  have b: "RuneCountInString [CHR 0xC3, CHR 0xA9, CHR 0xC3, CHR 0xA9] < 3"
    by (simp add: rune_size_def continuation_def)
  have c: "RuneCountInString [] < 3"
    by simp
  have d: "createUser healthy new_writer
     \<lparr>Method = ''POST'', ParseForm = None, Form = [(''name'', [[]])]\<rparr>
     \<lparr>users_table = [], id_seq = 1, issued = [], logged = []\<rparr> =
     (error_envelope 400 ''Username is required'',
      \<lparr>users_table = [], id_seq = 1, issued = [], logged = []\<rparr>)"
    by (simp add: createUser_def FormValue_def http_consts sendErrorResponse_new)
  have e: "createUser healthy new_writer
     \<lparr>Method = ''POST'', ParseForm = None,
      Form = [(''name'', [[CHR 0xC3, CHR 0xA9, CHR 0xC3, CHR 0xA9]])]\<rparr>
     \<lparr>users_table = [], id_seq = 1, issued = [], logged = []\<rparr> =
     (created_envelope [CHR 0xC3, CHR 0xA9, CHR 0xC3, CHR 0xA9],
      \<lparr>users_table = [(1, [CHR 0xC3, CHR 0xA9, CHR 0xC3, CHR 0xA9])], id_seq = 2,
       issued = [(''SELECT EXISTS(SELECT 1 FROM users WHERE name=$1)'',
                   [[CHR 0xC3, CHR 0xA9, CHR 0xC3, CHR 0xA9]]),
                 (''INSERT INTO users (name) VALUES ($1)'',
                   [[CHR 0xC3, CHR 0xA9, CHR 0xC3, CHR 0xA9]])],
       logged = []\<rparr>)"
    by (simp add: createUser_def FormValue_def http_consts sendErrorResponse_new
        sendSuccessResponse_new created_envelope_def checkUsernameExists_def
        db_QueryRow_exists_def db_Exec_insert_def send_def healthy_def Let_def)
  from c d a b e show ?thesis
    by (intro conjI)
qed

text \<open>
  C2, amended. For a POST request whose form parses and whose name has fewer than 3
  bytes or more than 20 characters, the answer is a 400 error envelope and the
  surroundings are unchanged, so no row is inserted; the message is
  \<open>Username is required\<close> for the empty name and otherwise
  \<open>Username must be between 3 and 20 characters\<close>, which contains
  \<open>between 3 and 20 characters\<close>. Names of fewer than 3 characters that occupy 3 to
  20 bytes are left out.
\<close>

theorem createUser_rejects_length:
  assumes "Method r = MethodPost" and "ParseForm r = None"
    and "length (FormValue r ''name'') < 3 \<or> 20 < RuneCountInString (FormValue r ''name'')"
  shows "createUser d new_writer r wd =
           (error_envelope 400
              (if FormValue r ''name'' = [] then ''Username is required''
               else ''Username must be between 3 and 20 characters''), wd) \<and>
         sublist ''between 3 and 20 characters''
           ''Username must be between 3 and 20 characters''"
proof -
  have "RuneCountInString (FormValue r ''name'') \<le> length (FormValue r ''name'')"
    by (rule RuneCountInString_le_len)
  with assms(3) have "length (FormValue r ''name'') < 3 \<or> 20 < length (FormValue r ''name'')"
    by linarith
  with assms(1,2) have "createUser d new_writer r wd =
           (error_envelope 400
              (if FormValue r ''name'' = [] then ''Username is required''
               else ''Username must be between 3 and 20 characters''), wd)"
    by (simp add: createUser_def sendErrorResponse_new StatusBadRequest_def Let_def)
  moreover have "sublist ''between 3 and 20 characters''
           (''Username must be '' @ ''between 3 and 20 characters'' @ [])"
    by (rule sublist_appendI)
  ultimately show ?thesis by simp
qed

theorem createUser_rejects_length_witness:
  "length (FormValue \<lparr>Method = ''POST'', ParseForm = None, Form = [(''name'', [''ab''])]\<rparr>
            ''name'') < 3 \<and>
   createUser healthy new_writer
     \<lparr>Method = ''POST'', ParseForm = None, Form = [(''name'', [''ab''])]\<rparr>
     \<lparr>users_table = [], id_seq = 1, issued = [], logged = []\<rparr> =
   (error_envelope 400 ''Username must be between 3 and 20 characters'',
    \<lparr>users_table = [], id_seq = 1, issued = [], logged = []\<rparr>)"
  using createUser_rejects_length
    [of "\<lparr>Method = ''POST'', ParseForm = None, Form = [(''name'', [''ab''])]\<rparr>"
      healthy "\<lparr>users_table = [], id_seq = 1, issued = [], logged = []\<rparr>"]
  by (simp add: FormValue_def MethodPost_def)

subsection \<open>A request that passes validation\<close>

lemma createUser_valid_post:
  assumes "Method r = MethodPost" and "ParseForm r = None"
    and "FormValue r ''name'' = u" and "3 \<le> length u" and "length u \<le> 20"
    and "exists_fault d = None"
  shows "createUser d new_writer r wd =
     (if u \<in> snd ` set (users_table wd) then
        (error_envelope 409 ''Username already exists'',
         send ''SELECT EXISTS(SELECT 1 FROM users WHERE name=$1)'' [u] wd)
      else case exec_fault d of
        Some err \<Rightarrow>
          (error_envelope 500 ''Failed to create user'',
           log_Println [''Failed to create user: '', Error err]
             (send ''INSERT INTO users (name) VALUES ($1)'' [u]
               (send ''SELECT EXISTS(SELECT 1 FROM users WHERE name=$1)'' [u] wd)))
      | None \<Rightarrow>
          (created_envelope u,
           (send ''INSERT INTO users (name) VALUES ($1)'' [u]
               (send ''SELECT EXISTS(SELECT 1 FROM users WHERE name=$1)'' [u] wd))
             \<lparr>users_table := users_table wd @ [(id_seq wd, u)], id_seq := id_seq wd + 1\<rparr>))"
proof -
  from assms(4) have ne: "u \<noteq> []" by auto
  show ?thesis
    using assms ne
    by (simp add: createUser_def http_consts sendErrorResponse_new sendSuccessResponse_new
        created_envelope_def checkUsernameExists_def db_QueryRow_exists_def db_Exec_insert_def
        send_def Let_def split: option.splits)
qed

subsection \<open>Creating the same name twice\<close>

text \<open>
  Where the name occupies 3 to 20 bytes and no row carries it yet, two attempts in
  sequence with a driver that does not fail end as expected: the first creates the
  user, the second is answered 409 and leaves the table as it was, and one row
  carries the name.
\<close>

lemma createUser_twice_within_bytes:
  assumes "Method r = MethodPost" and "ParseForm r = None"
    and "FormValue r ''name'' = u" and "3 \<le> length u" and "length u \<le> 20"
    and "rows_named u wd = 0"
  shows "fst (createUser healthy new_writer r wd) = created_envelope u \<and>
         fst (createUser healthy new_writer r (snd (createUser healthy new_writer r wd))) =
           error_envelope 409 ''Username already exists'' \<and>
         users_table (snd (createUser healthy new_writer r
                             (snd (createUser healthy new_writer r wd)))) =
           users_table (snd (createUser healthy new_writer r wd)) \<and>
         rows_named u (snd (createUser healthy new_writer r
                             (snd (createUser healthy new_writer r wd)))) = 1"
proof -
  have h: "exists_fault healthy = None" "exec_fault healthy = None"
    by (simp_all add: healthy_def)
  from assms(6) have absent: "u \<notin> snd ` set (users_table wd)"
    by (auto simp add: rows_named_def filter_empty_conv)
  let ?wd1 = "snd (createUser healthy new_writer r wd)"
  have first: "createUser healthy new_writer r wd =
      (created_envelope u,
       (send ''INSERT INTO users (name) VALUES ($1)'' [u]
          (send ''SELECT EXISTS(SELECT 1 FROM users WHERE name=$1)'' [u] wd))
         \<lparr>users_table := users_table wd @ [(id_seq wd, u)], id_seq := id_seq wd + 1\<rparr>)"
    using createUser_valid_post [OF assms(1-5) h(1), of wd] absent h(2) by simp
  then have tbl1: "users_table ?wd1 = users_table wd @ [(id_seq wd, u)]"
    by simp
  then have present: "u \<in> snd ` set (users_table ?wd1)"
    by force
  have second: "createUser healthy new_writer r ?wd1 =
      (error_envelope 409 ''Username already exists'',
       send ''SELECT EXISTS(SELECT 1 FROM users WHERE name=$1)'' [u] ?wd1)"
    using createUser_valid_post [OF assms(1-5) h(1), of ?wd1] present by simp
  have tbl2: "users_table (snd (createUser healthy new_writer r ?wd1)) = users_table ?wd1"
    by (simp add: second send_def)
  have "rows_named u (snd (createUser healthy new_writer r ?wd1)) = 1"
    using assms(6) by (simp add: rows_named_def tbl2 tbl1)
  with first second tbl2 show ?thesis by simp
qed

lemma seven_euros_size: "RuneCountInString seven_euros = 7 \<and> length seven_euros = 21"
  by (simp add: seven_euros_def rune_size_def continuation_def)

lemma seven_euros_rejected:
  "createUser healthy new_writer (post_name seven_euros) wd =
     (error_envelope 400 ''Username must be between 3 and 20 characters'', wd)"
proof -
  have "length seven_euros = 21" "seven_euros \<noteq> []"
    by (simp_all add: seven_euros_def)
  then show ?thesis
    by (simp add: createUser_def post_name_def FormValue_def sendErrorResponse_new
        MethodPost_def StatusBadRequest_def)
qed

text \<open>
  C3. The same valid name submitted twice in sequence should be created by the first
  attempt and answered 409 \<open>Username already exists\<close> by the second, with exactly one
  row of that name afterwards. A valid name has 3 to 20 characters; the handler
  measures bytes. At the name of seven characters in 21 bytes, on an empty table and
  with a driver that does not fail, both attempts are answered 400 and no row carries
  the name.
\<close>

theorem createUser_twice_seven_euros:
  "3 \<le> RuneCountInString seven_euros \<and> RuneCountInString seven_euros \<le> 20 \<and>
   fst (createUser healthy new_writer (post_name seven_euros) empty_world) =
     error_envelope 400 ''Username must be between 3 and 20 characters'' \<and>
   fst (createUser healthy new_writer (post_name seven_euros)
          (snd (createUser healthy new_writer (post_name seven_euros) empty_world))) =
     error_envelope 400 ''Username must be between 3 and 20 characters'' \<and>
   rows_named seven_euros
     (snd (createUser healthy new_writer (post_name seven_euros)
            (snd (createUser healthy new_writer (post_name seven_euros) empty_world)))) = 0"
  using seven_euros_size
  by (simp add: seven_euros_rejected rows_named_def empty_world_def)

subsection \<open>The order of the checks\<close>

lemma upt6: "[0..<6] = [0, 1, 2, 3, 4, 5]"
  by (simp add: upt_rec)

text \<open>
  Where counting bytes and counting characters give the length check the same
  outcome, a POST request is answered as the ordered pipeline answers it, in the
  response, in the statements sent and in the table left behind.
\<close>

lemma createUser_pipeline_where_lengths_agree:
  assumes "Method r = MethodPost"
    and agree: "(RuneCountInString (FormValue r ''name'') < 3 \<or>
                 20 < RuneCountInString (FormValue r ''name'')) =
                (length (FormValue r ''name'') < 3 \<or> 20 < length (FormValue r ''name''))"
  shows "fst (createUser d new_writer r wd) = create_spec_response d r wd \<and>
         issued (snd (createUser d new_writer r wd)) = issued wd @ create_spec_statements d r wd \<and>
         users_table (snd (createUser d new_writer r wd)) = create_spec_table d r wd"
proof -
  let ?u = "FormValue r ''name''"
  note spec = create_spec_response_def create_spec_statements_def create_spec_table_def
    first_failing_def create_spec_checks_def upt6
  consider (parse) "ParseForm r \<noteq> None"
    | (missing) "ParseForm r = None" "?u = []"
    | (len) "ParseForm r = None" "?u \<noteq> []" "length ?u < 3 \<or> 20 < length ?u"
    | (check) "ParseForm r = None" "3 \<le> length ?u" "length ?u \<le> 20" "exists_fault d \<noteq> None"
    | (valid) "ParseForm r = None" "3 \<le> length ?u" "length ?u \<le> 20" "exists_fault d = None"
    by fastforce
  then show ?thesis
  proof cases
    case parse
    with assms(1) show ?thesis
      by (auto simp add: createUser_def spec sendErrorResponse_new StatusBadRequest_def)
  next
    case missing
    with assms(1) show ?thesis
      by (simp add: createUser_def spec sendErrorResponse_new StatusBadRequest_def)
  next
    case len
    from len(3) agree have chars: "RuneCountInString ?u < 3 \<or> 20 < RuneCountInString ?u"
      by simp
    from assms(1) len chars show ?thesis
      by (simp add: createUser_def spec sendErrorResponse_new StatusBadRequest_def)
  next
    case check
    then obtain e where e: "exists_fault d = Some e" by auto
    from check have ne: "?u \<noteq> []" by auto
    from check(2,3) agree have chars: "\<not> (RuneCountInString ?u < 3 \<or> 20 < RuneCountInString ?u)"
      by simp
    from assms(1) check(1-3) ne e chars show ?thesis
      by (simp add: createUser_def spec sendErrorResponse_new http_consts
          checkUsernameExists_def db_QueryRow_exists_def send_def log_Println_def)
  next
    case valid
    from valid(2) have ne: "?u \<noteq> []" by auto
    from valid(2,3) agree have chars: "\<not> (RuneCountInString ?u < 3 \<or> 20 < RuneCountInString ?u)"
      by simp
    show ?thesis
    proof (cases "exec_fault d")
      case None
      with valid ne chars show ?thesis
        unfolding createUser_valid_post [OF assms(1) valid(1) refl valid(2-4), of wd]
        by (simp add: spec send_def)
    next
      case (Some e)
      with valid ne chars show ?thesis
        unfolding createUser_valid_post [OF assms(1) valid(1) refl valid(2-4), of wd]
        by (simp add: spec send_def log_Println_def)
    qed
  qed
qed

lemma two_e_acutes_size: "RuneCountInString two_e_acutes = 2 \<and> length two_e_acutes = 4"
  by (simp add: two_e_acutes_def rune_size_def continuation_def)

lemma two_e_acutes_created:
  "createUser healthy new_writer (post_name two_e_acutes) empty_world =
     (created_envelope two_e_acutes,
      \<lparr>users_table = [(1, two_e_acutes)], id_seq = 2,
       issued = [(''SELECT EXISTS(SELECT 1 FROM users WHERE name=$1)'', [two_e_acutes]),
                 (''INSERT INTO users (name) VALUES ($1)'', [two_e_acutes])],
       logged = []\<rparr>)"
proof -
  have r: "Method (post_name two_e_acutes) = MethodPost" "ParseForm (post_name two_e_acutes) = None"
    "FormValue (post_name two_e_acutes) ''name'' = two_e_acutes"
    by (simp_all add: post_name_def MethodPost_def FormValue_def)
  have l: "3 \<le> length two_e_acutes" "length two_e_acutes \<le> 20"
    by (simp_all add: two_e_acutes_def)
  have h: "exists_fault healthy = None" "exec_fault healthy = None"
    by (simp_all add: healthy_def)
  show ?thesis
    unfolding createUser_valid_post [OF r l h(1), of empty_world]
    by (simp add: h(2) empty_world_def send_def)
qed

lemma two_e_acutes_spec:
  "create_spec_response healthy (post_name two_e_acutes) empty_world =
     error_envelope 400 ''Username must be between 3 and 20 characters'' \<and>
   create_spec_statements healthy (post_name two_e_acutes) empty_world = [] \<and>
   create_spec_table healthy (post_name two_e_acutes) empty_world = []"
proof -
  have r: "ParseForm (post_name two_e_acutes) = None"
    "FormValue (post_name two_e_acutes) ''name'' = two_e_acutes"
    by (simp_all add: post_name_def FormValue_def)
  have n: "two_e_acutes \<noteq> []" by (simp add: two_e_acutes_def)
  from two_e_acutes_size have c: "RuneCountInString two_e_acutes < 3" by simp
  show ?thesis
    by (simp add: create_spec_response_def create_spec_statements_def create_spec_table_def
        first_failing_def create_spec_checks_def upt6 r n c empty_world_def)
qed

text \<open>
  C4. On a POST request the handler should answer as the ordered pipeline does: parse
  failure 400, missing name 400 \<open>Username is required\<close>, length outside 3 to 20
  characters 400, failed existence query 500, name found 409, failed insert 500,
  otherwise 201 naming the user, the first failing check giving the response and the
  later steps being skipped. The handler's third check measures bytes. At the name of
  two characters in 4 bytes, on an empty table and with a driver that does not fail,
  the pipeline stops at the length check with 400, sends no statement and inserts no
  row; the handler goes on to the existence query and the insert and answers 201.
\<close>

theorem createUser_pipeline_two_e_acutes:
  "RuneCountInString two_e_acutes < 3 \<and>
   create_spec_response healthy (post_name two_e_acutes) empty_world =
     error_envelope 400 ''Username must be between 3 and 20 characters'' \<and>
   create_spec_statements healthy (post_name two_e_acutes) empty_world = [] \<and>
   create_spec_table healthy (post_name two_e_acutes) empty_world = [] \<and>
   fst (createUser healthy new_writer (post_name two_e_acutes) empty_world) =
     created_envelope two_e_acutes \<and>
   issued (snd (createUser healthy new_writer (post_name two_e_acutes) empty_world)) =
     [(''SELECT EXISTS(SELECT 1 FROM users WHERE name=$1)'', [two_e_acutes]),
      (''INSERT INTO users (name) VALUES ($1)'', [two_e_acutes])] \<and>
   users_table (snd (createUser healthy new_writer (post_name two_e_acutes) empty_world)) =
     [(1, two_e_acutes)]"
  using two_e_acutes_size two_e_acutes_spec
  by (simp add: two_e_acutes_created)

subsection \<open>The existence check compares names exactly\<close>

text \<open>
  C9. For a POST request with a name of 3 to 20 bytes and a driver that does not fail,
  the answer is 409 exactly when some row carries the very same name; a name that no
  row carries, whatever names differing in letter case are stored, is created.
\<close>

theorem createUser_conflict_exact:
  assumes "Method r = MethodPost" and "ParseForm r = None"
    and "FormValue r ''name'' = u" and "3 \<le> length u" and "length u \<le> 20"
  shows "(status (fst (createUser healthy new_writer r wd)) = Some 409
            \<longleftrightarrow> u \<in> snd ` set (users_table wd)) \<and>
         (u \<notin> snd ` set (users_table wd) \<longrightarrow>
            fst (createUser healthy new_writer r wd) = created_envelope u \<and>
            users_table (snd (createUser healthy new_writer r wd)) =
              users_table wd @ [(id_seq wd, u)])"
proof -
  have h: "exists_fault healthy = None" "exec_fault healthy = None"
    by (simp_all add: healthy_def)
  show ?thesis
    unfolding createUser_valid_post [OF assms h(1), of wd]
    by (simp add: h(2) error_envelope_def created_envelope_def)
qed

theorem createUser_conflict_exact_witness:
  "''Alice'' \<notin> snd ` set [(1::int, ''alice'')] \<and>
   status (fst (createUser healthy new_writer
     \<lparr>Method = ''POST'', ParseForm = None, Form = [(''name'', [''Alice''])]\<rparr>
     \<lparr>users_table = [(1, ''alice'')], id_seq = 2, issued = [], logged = []\<rparr>)) \<noteq> Some 409 \<and>
   fst (createUser healthy new_writer
     \<lparr>Method = ''POST'', ParseForm = None, Form = [(''name'', [''Alice''])]\<rparr>
     \<lparr>users_table = [(1, ''alice'')], id_seq = 2, issued = [], logged = []\<rparr>) =
     created_envelope ''Alice'' \<and>
   users_table (snd (createUser healthy new_writer
     \<lparr>Method = ''POST'', ParseForm = None, Form = [(''name'', [''Alice''])]\<rparr>
     \<lparr>users_table = [(1, ''alice'')], id_seq = 2, issued = [], logged = []\<rparr>)) =
     [(1, ''alice''), (2, ''Alice'')]"
proof -
  let ?r = "\<lparr>Method = ''POST'', ParseForm = None, Form = [(''name'', [''Alice''])]\<rparr>"
  let ?wd = "\<lparr>users_table = [(1, ''alice'')], id_seq = 2, issued = [], logged = []\<rparr>"
  have m: "Method ?r = MethodPost" by (simp add: MethodPost_def)
  have p: "ParseForm ?r = None" by simp
  have f: "FormValue ?r ''name'' = ''Alice''" by (simp add: FormValue_def)
  have l: "3 \<le> length ''Alice''" "length ''Alice'' \<le> 20" by simp_all
  have a: "''Alice'' \<notin> snd ` set [(1::int, ''alice'')]" by simp
  from createUser_conflict_exact [OF m p f l, of ?wd] a show ?thesis
    by (simp add: created_envelope_def)
qed

subsection \<open>A failed listing sends no partial list\<close>

lemma scan_loop_fails:
  "\<exists>x \<in> set ps. isl x \<Longrightarrow> \<exists>e. scan_loop ps users = Inl e"
  by (induction ps users rule: scan_loop.induct) auto

text \<open>
  C6. When the listing meets a failure (the query fails, or the scan of some delivered
  row fails, or the iteration ends with an error) the response is one of the three 500
  error envelopes and nothing else: its body is a single object, and that object has
  no \<open>users\<close> field.
\<close>

theorem getUsers_failure_no_partial_list:
  assumes "query_fault d \<noteq> None
           \<or> (\<exists>x \<in> set (pending (open_rows d (users_table wd))). isl x)
           \<or> rows_Err (open_rows d (users_table wd)) \<noteq> None"
  shows "fst (getUsers d new_writer r wd) \<in>
           {error_envelope 500 ''Failed to query users'',
            error_envelope 500 ''Failed to scan user'',
            error_envelope 500 ''Error iterating users''} \<and>
         map (\<lambda>j. field j ''users'') (body (fst (getUsers d new_writer r wd))) = [None]"
proof -
  have env: "map (\<lambda>j. field j ''users'') (body (error_envelope 500 m)) = [None]" for m
    by (simp add: error_envelope_def)
  have "fst (getUsers d new_writer r wd) \<in>
           {error_envelope 500 ''Failed to query users'',
            error_envelope 500 ''Failed to scan user'',
            error_envelope 500 ''Error iterating users''}"
  proof (cases "query_fault d")
    case (Some e)
    then show ?thesis
      by (simp add: getUsers_def db_Query_users_def sendErrorResponse_new http_consts)
  next
    case None
    show ?thesis
    proof (cases "\<exists>x \<in> set (pending (open_rows d (users_table wd))). isl x")
      case True
      from scan_loop_fails [OF this] obtain e
        where "scan_loop (pending (open_rows d (users_table wd))) None = Inl e" by blast
      with None show ?thesis
        by (simp add: getUsers_def db_Query_users_def sendErrorResponse_new http_consts)
    next
      case False
      with assms None obtain e where "rows_Err (open_rows d (users_table wd)) = Some e"
        by auto
      with None show ?thesis
        by (simp add: getUsers_def db_Query_users_def sendErrorResponse_new http_consts
            split: sum.splits)
    qed
  qed
  then show ?thesis
    using env by auto
qed

theorem getUsers_failure_no_partial_list_witness:
  "(\<exists>x \<in> set (pending (open_rows
        \<lparr>query_fault = None, scan_faults = [(1, DriverError ''bad row'')], iter_fault = None,
         exists_fault = None, exec_fault = None\<rparr> [(1, ''alice''), (2, ''bob'')])). isl x) \<and>
   fst (getUsers
     \<lparr>query_fault = None, scan_faults = [(1, DriverError ''bad row'')], iter_fault = None,
      exists_fault = None, exec_fault = None\<rparr>
     new_writer \<lparr>Method = ''GET'', ParseForm = None, Form = []\<rparr>
     \<lparr>users_table = [(1, ''alice''), (2, ''bob'')], id_seq = 3, issued = [], logged = []\<rparr>)
     \<in> {error_envelope 500 ''Failed to query users'',
         error_envelope 500 ''Failed to scan user'',
         error_envelope 500 ''Error iterating users''}"
proof -
  let ?d = "\<lparr>query_fault = None, scan_faults = [(1, DriverError ''bad row'')], iter_fault = None,
         exists_fault = None, exec_fault = None\<rparr>"
  let ?wd = "\<lparr>users_table = [(1, ''alice''), (2, ''bob'')], id_seq = 3, issued = [], logged = []\<rparr>"
  have h: "\<exists>x \<in> set (pending (open_rows ?d [(1, ''alice''), (2, ''bob'')])). isl x"
    by (simp add: open_rows_def)
  then have "query_fault ?d \<noteq> None
           \<or> (\<exists>x \<in> set (pending (open_rows ?d (users_table ?wd))). isl x)
           \<or> rows_Err (open_rows ?d (users_table ?wd)) \<noteq> None"
    by simp
  from getUsers_failure_no_partial_list [OF this] h show ?thesis
    by blast
qed

subsection \<open>Every response is an envelope\<close>

lemma error_envelope_enveloped: "400 \<le> code \<Longrightarrow> enveloped (error_envelope code message)"
  by (simp add: enveloped_def error_envelope_def)

lemma sendSuccessResponse_enveloped:
  "code < 400 \<Longrightarrow> k = ''users'' \<or> k = ''message'' \<Longrightarrow>
   enveloped (\<lparr>Header = [(''Content-Type'', ''application/json'')], status = Some code,
      body = [JObj [(k, v), (''status'', JNum code)]]\<rparr>)"
  by (auto simp add: enveloped_def)

lemma getUsers_enveloped: "enveloped (fst (getUsers d new_writer r wd))"
proof (cases "db_Query_users d wd")
  case (Pair res wd1)
  show ?thesis
  proof (cases res)
    case (Inl e)
    with Pair show ?thesis
      by (simp add: getUsers_def sendErrorResponse_new error_envelope_enveloped http_consts)
  next
    case (Inr rows)
    show ?thesis
    proof (cases "scan_loop (pending rows) None")
      case (Inl e)
      with Pair Inr show ?thesis
        by (simp add: getUsers_def sendErrorResponse_new error_envelope_enveloped http_consts)
    next
      case users: (Inr users)
      show ?thesis
      proof (cases "rows_Err rows")
        case (Some e)
        with Pair Inr users show ?thesis
          by (simp add: getUsers_def sendErrorResponse_new error_envelope_enveloped http_consts)
      next
        case None
        with Pair Inr users show ?thesis
          by (simp add: getUsers_def sendSuccessResponse_new sendSuccessResponse_enveloped
              http_consts)
      qed
    qed
  qed
qed

text \<open>
  C7. Whatever the request, the table and the driver, the response of either handler
  on a fresh writer is an envelope: one JSON object whose \<open>status\<close> field equals the
  status code, with a \<open>users\<close> or \<open>message\<close> field on success and a string \<open>error\<close>
  field on failure.
\<close>

theorem responses_enveloped:
  "enveloped (fst (getUsers d new_writer r wd)) \<and> enveloped (fst (createUser d new_writer r wd))"
proof
  show "enveloped (fst (getUsers d new_writer r wd))"
    by (rule getUsers_enveloped)
  show "enveloped (fst (createUser d new_writer r wd))"
    by (simp add: createUser_def sendErrorResponse_new error_envelope_enveloped
      sendSuccessResponse_new sendSuccessResponse_enveloped http_consts Let_def
      split: option.splits sum.splits prod.splits)
qed

theorem responses_enveloped_witness:
  "enveloped (fst (getUsers healthy new_writer
     \<lparr>Method = ''GET'', ParseForm = None, Form = []\<rparr>
     \<lparr>users_table = [(1, ''alice'')], id_seq = 2, issued = [], logged = []\<rparr>)) \<and>
   enveloped (fst (createUser healthy new_writer
     \<lparr>Method = ''GET'', ParseForm = None, Form = []\<rparr>
     \<lparr>users_table = [(1, ''alice'')], id_seq = 2, issued = [], logged = []\<rparr>))"
  by (rule responses_enveloped)

subsection \<open>The underlying error does not reach the client\<close>

lemma scan_loop_forget:
  "scan_loop (map (map_sum f id) ps) users = map_sum f id (scan_loop ps users)"
  by (induction ps users rule: scan_loop.induct) simp_all

lemma map_of_forget:
  "map_of (map (\<lambda>(i, e). (i, f e)) xs) k = map_option f (map_of xs k)"
  by (induction xs) auto

lemma pending_forget:
  "pending (open_rows (failure_points d) tbl) =
     map (map_sum forget id) (pending (open_rows d tbl))"
  by (cases "iter_fault d")
     (auto simp add: open_rows_def failure_points_def map_of_forget split: option.splits)

lemma rows_Err_forget:
  "rows_Err (open_rows (failure_points d) tbl) = map_option forget (rows_Err (open_rows d tbl))"
  by (cases "iter_fault d") (auto simp add: open_rows_def failure_points_def)

lemma getUsers_forget:
  "fst (getUsers (failure_points d) w r wd) = fst (getUsers d w r wd)"
proof (cases "query_fault d")
  case (Some e)
  then show ?thesis
    by (simp add: getUsers_def db_Query_users_def failure_points_def)
next
  case None
  then have q: "query_fault (failure_points d) = None"
    by (simp add: failure_points_def)
  show ?thesis
  proof (cases "scan_loop (pending (open_rows d (users_table wd))) None")
    case (Inl e)
    with None q show ?thesis
      by (simp add: getUsers_def db_Query_users_def send_def pending_forget scan_loop_forget)
  next
    case (Inr users)
    with None q show ?thesis
      by (cases "rows_Err (open_rows d (users_table wd))")
         (simp_all add: getUsers_def db_Query_users_def send_def pending_forget scan_loop_forget
           rows_Err_forget)
  qed
qed

lemma createUser_forget:
  "fst (createUser (failure_points d) w r wd) = fst (createUser d w r wd)"
  by (cases "exists_fault d"; cases "exec_fault d")
     (simp_all add: createUser_def checkUsernameExists_def db_QueryRow_exists_def
       db_Exec_insert_def failure_points_def Let_def split: option.splits)

text \<open>
  C8. Two drivers that fail at the same points, with whatever underlying errors, give
  the client the same response, for both handlers: the response depends on where the
  persistence layer failed and not on the error it reported.
\<close>

theorem persistence_errors_not_leaked:
  assumes "failure_points d1 = failure_points d2"
  shows "fst (getUsers d1 w r wd) = fst (getUsers d2 w r wd) \<and>
         fst (createUser d1 w r wd) = fst (createUser d2 w r wd)"
proof -
  have "fst (getUsers d1 w r wd) = fst (getUsers (failure_points d1) w r wd)"
    by (simp add: getUsers_forget)
  also have "\<dots> = fst (getUsers d2 w r wd)"
    by (simp add: assms getUsers_forget)
  finally have g: "fst (getUsers d1 w r wd) = fst (getUsers d2 w r wd)" .
  have "fst (createUser d1 w r wd) = fst (createUser (failure_points d1) w r wd)"
    by (simp add: createUser_forget)
  also have "\<dots> = fst (createUser d2 w r wd)"
    by (simp add: assms createUser_forget)
  finally show ?thesis using g by simp
qed

theorem persistence_errors_not_leaked_witness:
  "failure_points (healthy\<lparr>exec_fault := Some (DriverError ''connection refused'')\<rparr>) =
     failure_points (healthy\<lparr>exec_fault := Some (DriverError ''disk full'')\<rparr>) \<and>
   fst (createUser (healthy\<lparr>exec_fault := Some (DriverError ''connection refused'')\<rparr>)
          new_writer \<lparr>Method = ''POST'', ParseForm = None, Form = [(''name'', [''alice''])]\<rparr>
          \<lparr>users_table = [], id_seq = 1, issued = [], logged = []\<rparr>) =
   fst (createUser (healthy\<lparr>exec_fault := Some (DriverError ''disk full'')\<rparr>)
          new_writer \<lparr>Method = ''POST'', ParseForm = None, Form = [(''name'', [''alice''])]\<rparr>
          \<lparr>users_table = [], id_seq = 1, issued = [], logged = []\<rparr>)"
proof -
  have h: "failure_points (healthy\<lparr>exec_fault := Some (DriverError ''connection refused'')\<rparr>) =
     failure_points (healthy\<lparr>exec_fault := Some (DriverError ''disk full'')\<rparr>)"
    by (simp add: failure_points_def healthy_def forget_def)
  from persistence_errors_not_leaked [OF h] h show ?thesis
    by blast
qed

end
